theory Spec2Isabelle
  imports Main "HOL-Library.Char_ord" "HOL-Library.List_Lexorder"
begin

section \<open>Bytes and the prefix comparators\<close>

text \<open>
  A Go \<^verbatim>\<open>[]byte\<close> value and a Go \<^verbatim>\<open>string\<close> are both sequences of 8-bit bytes;
  both are modelled as \<open>char list\<close> (an Isabelle \<open>char\<close> is one byte, ordered by its
  numeric value).  The backing array and capacity of a slice are modelled separately, only
  where the program's behaviour depends on them (the block buffer of the searcher).
\<close>

type_synonym byte = char
type_synonym bytes = "char list"

definition nl :: byte where
  "nl = CHR 0x0A"

text \<open>\<^verbatim>\<open>bytes.Compare\<close> / \<^verbatim>\<open>strings.Compare\<close>: lexicographic comparison, result in \<open>{-1, 0, 1}\<close>.\<close>

fun bytesCompare :: "bytes \<Rightarrow> bytes \<Rightarrow> int" where
  "bytesCompare [] [] = 0"
| "bytesCompare [] (y # ys) = -1"
| "bytesCompare (x # xs) [] = 1"
| "bytesCompare (x # xs) (y # ys) =
     (if x < y then -1 else if y < x then 1 else bytesCompare xs ys)"

text \<open>
  \<^verbatim>\<open>PrefixCompare(bufa, b)\<close> (bsearch.go): if \<open>bufa\<close> is shorter than \<open>b\<close>, compare it to
  \<open>b[:len(bufa)]\<close> and turn equality into \<open>-1\<close>; otherwise compare \<open>bufa[:len(b)]\<close> to \<open>b\<close>.
\<close>

definition PrefixCompare :: "bytes \<Rightarrow> bytes \<Rightarrow> int" where
  "PrefixCompare bufa b =
     (if length bufa < length b then
        (let cmp = bytesCompare bufa (take (length bufa) b)
         in if cmp = 0 then -1 else cmp)
      else bytesCompare (take (length b) bufa) b)"

text \<open>\<^verbatim>\<open>prefixCompareString(a, b)\<close> (index.go): the same on strings.\<close>

definition prefixCompareString :: "bytes \<Rightarrow> bytes \<Rightarrow> int" where
  "prefixCompareString a b =
     (if length a < length b then
        (let cmp = bytesCompare a (take (length a) b)
         in if cmp = 0 then -1 else cmp)
      else bytesCompare (take (length b) a) b)"

text \<open>
  Go's string comparison \<^verbatim>\<open>a > b\<close>: bytewise lexicographic order.
\<close>

definition stringGreater :: "bytes \<Rightarrow> bytes \<Rightarrow> bool" where
  "stringGreater a b = (bytesCompare a b = 1)"

section \<open>Properties of the comparators\<close>

lemma bytesCompare_range: "bytesCompare a b \<in> {-1, 0, 1}"
  by (induction a b rule: bytesCompare.induct) auto

lemma bytesCompare_refl [simp]: "bytesCompare a a = 0"
  by (induction a) auto

lemma bytesCompare_eq_0: "bytesCompare a b = 0 \<longleftrightarrow> a = b"
  by (induction a b rule: bytesCompare.induct) auto

lemma bytesCompare_prefix_less:
  "length a < length b \<Longrightarrow> a = take (length a) b \<Longrightarrow> bytesCompare a b = -1"
proof (induction a b rule: bytesCompare.induct)
  case (4 x xs y ys)
  then show ?case by simp
qed simp_all

text \<open>
  Claim C3.  For all byte sequences \<open>a\<close> and \<open>b\<close>, \<open>PrefixCompare a b = 0\<close> exactly when
  \<open>b\<close> is a prefix of \<open>a\<close> (\<open>len(a) \<ge> len(b)\<close> and \<open>a[:len(b)] = b\<close>); and whenever \<open>a\<close> is
  strictly shorter than \<open>b\<close> and equal to \<open>b[:len(a)]\<close>, the result is negative
  (short-is-less).
\<close>

theorem PrefixCompare_prefix_test:
  "(PrefixCompare a b = 0 \<longleftrightarrow> length b \<le> length a \<and> take (length b) a = b) \<and>
   (length a < length b \<and> a = take (length a) b \<longrightarrow> PrefixCompare a b < 0)"
  by (auto simp: PrefixCompare_def Let_def bytesCompare_eq_0)

theorem PrefixCompare_prefix_test_witness:
  "(PrefixCompare ''ab'' ''abc'' = 0 \<longleftrightarrow>
      length ''abc'' \<le> length ''ab'' \<and> take (length ''abc'') ''ab'' = ''abc'') \<and>
   (length ''ab'' < length ''abc'' \<and> ''ab'' = take (length ''ab'') ''abc'') \<and>
   PrefixCompare ''ab'' ''abc'' < 0"
  using PrefixCompare_prefix_test [of "''ab''" "''abc''"] by simp


text \<open>
  With the lexicographic order on lists, \<open>bytesCompare\<close> is the three-way comparison of
  that order, and both prefix comparators compare the first \<open>length b\<close> bytes of their
  first argument with \<open>b\<close>.
\<close>

lemma bytesCompare_alt:
  "bytesCompare a b = (if a < b then -1 else if a = b then 0 else 1)"
  by (induction a b rule: bytesCompare.induct) auto

lemma take_mono_lex: "(a::bytes) \<le> b \<Longrightarrow> take n a \<le> take n b"
proof (induction n arbitrary: a b)
  case 0
  then show ?case by simp
next
  case (Suc n)
  then show ?case by (cases a; cases b) auto
qed

lemma prefixCompareString_alt:
  "prefixCompareString a k = bytesCompare (take (length k) a) k"
proof (cases "length a < length k")
  case True
  have "bytesCompare a k = (if a = take (length a) k then -1 else bytesCompare a (take (length a) k))"
    using True
  proof (induction a k rule: bytesCompare.induct)
    case (4 x xs y ys)
    then show ?case by auto
  qed auto
  then show ?thesis using True
    by (auto simp: prefixCompareString_def Let_def bytesCompare_eq_0)
next
  case False
  then show ?thesis by (simp add: prefixCompareString_def)
qed

lemma prefixCompareString_mono:
  "bytesCompare a a' \<le> 0 \<Longrightarrow> prefixCompareString a k \<le> prefixCompareString a' k"
proof -
  assume "bytesCompare a a' \<le> 0"
  then have "a \<le> a'" by (auto simp: bytesCompare_alt split: if_splits)
  then have "take (length k) a \<le> take (length k) a'" by (rule take_mono_lex)
  then show ?thesis
    unfolding prefixCompareString_alt bytesCompare_alt by auto
qed

lemma plain_le_prefix_le:
  "\<not> stringGreater a k \<Longrightarrow> prefixCompareString a k \<le> 0"
proof -
  assume "\<not> stringGreater a k"
  then have "a \<le> k" by (auto simp: stringGreater_def bytesCompare_alt split: if_splits)
  then have "take (length k) a \<le> take (length k) k" by (rule take_mono_lex)
  then show ?thesis unfolding prefixCompareString_alt bytesCompare_alt by auto
qed

section \<open>Errors and outcomes\<close>

text \<open>
  The exported error values of the package, plus \<open>ErrOther\<close> for errors built with
  \<^verbatim>\<open>fmt.Errorf\<close> / \<^verbatim>\<open>errors.New\<close> at the point of failure and for errors passed through
  from the operating system; \<open>EOF\<close> is \<^verbatim>\<open>io.EOF\<close>.
\<close>

datatype error =
    ErrNotFound
  | ErrKeyExceedsBlocksize
  | ErrNotFile
  | ErrCompressedNoIndex
  | ErrIndexNotFound
  | ErrIndexExpired
  | ErrIndexEmpty
  | ErrIndexPathMismatch
  | ErrIndexEntryNotFound
  | ErrSortViolation bytes bytes
  | EOF
  | ErrOther string

text \<open>
  A Go function either returns or panics at run time (index or slice bounds out of range).
  \<open>Panic\<close> is the run-time panic; \<open>Ret v\<close> is a normal return of \<open>v\<close> (where \<open>v\<close> may
  itself carry an error value).
\<close>

datatype 'a outcome = Panic | Ret 'a

section \<open>The index model (index.go)\<close>

record IndexEntry =
  Key :: bytes
  Offset :: int
  Length :: int

record Index =
  Blocksize :: int
  Delimiter :: bytes
  Epoch :: int
  Filepath :: string
  Header :: bool
  KeysIndexFirst :: bool
  KeysUnique :: bool
  ListLength :: int
  List :: "IndexEntry list"
  Version :: int

text \<open>The zero value \<^verbatim>\<open>IndexEntry{}\<close>.\<close>

definition IndexEntry0 :: IndexEntry where
  "IndexEntry0 = \<lparr>Key = [], Offset = 0, Length = 0\<rparr>"

section \<open>The block locator (index.go)\<close>

text \<open>
  One pass through the body of the binary-search loop of \<^verbatim>\<open>blockEntryLE\<close> and
  \<^verbatim>\<open>blockEntryLT\<close>.  The two loops differ only in the test on the comparison result
  (\<open>cmp \<le> 0\<close> against \<open>cmp = -1\<close>), which is the parameter \<open>goRight\<close>.  The step is taken
  with \<open>end - begin > 0\<close>; it either panics (\<open>list[mid]\<close> out of range), leaves the loop by
  \<^verbatim>\<open>break\<close>, or continues with new bounds.
\<close>

datatype step = StepPanic | StepBreak | StepContinue int int

definition midpoint :: "int \<Rightarrow> int \<Rightarrow> int" where
  "midpoint begin end =
     (let mid = ((end - begin) div 2) + begin
      in if mid = begin then mid + 1 else mid)"

definition searchStep :: "(bytes \<Rightarrow> bool) \<Rightarrow> IndexEntry list \<Rightarrow> int \<Rightarrow> int \<Rightarrow> step" where
  "searchStep goRight list begin end =
     (let mid = midpoint begin end
      in if mid < 0 \<or> int (length list) \<le> mid then StepPanic
         else if goRight (Key (list ! nat mid)) then StepContinue mid end
         else if end = mid then StepBreak
         else StepContinue begin mid)"

lemma searchStep_decreases:
  assumes "0 < end - begin" and "searchStep goRight list begin end = StepContinue b' e'"
  shows "0 \<le> e' - b' \<and> e' - b' < end - begin"
proof -
  let ?mid = "midpoint begin end"
  have m: "begin < ?mid \<and> ?mid \<le> end"
    using assms(1) by (auto simp: midpoint_def Let_def)
  from assms(2) show ?thesis
    using m by (auto simp: searchStep_def Let_def split: if_splits)
qed

function searchLoop :: "(bytes \<Rightarrow> bool) \<Rightarrow> IndexEntry list \<Rightarrow> int \<Rightarrow> int \<Rightarrow> int outcome" where
  "searchLoop goRight list begin end =
     (if 0 < end - begin then
        (case searchStep goRight list begin end of
           StepPanic \<Rightarrow> Panic
         | StepBreak \<Rightarrow> Ret begin
         | StepContinue b' e' \<Rightarrow> searchLoop goRight list b' e')
      else Ret begin)"
  by pat_completeness auto
termination
proof (relation "measure (\<lambda>(goRight, list, begin, end). nat (end - begin))")
  show "wf (measure (\<lambda>(goRight, list, begin, end). nat (end - begin)))" by simp
next
  fix goRight :: "bytes \<Rightarrow> bool" and list :: "IndexEntry list" and "begin" "end" b' e' :: int
  assume "0 < end - begin" and "searchStep goRight list begin end = StepContinue b' e'"
  from searchStep_decreases [OF this]
  show "((goRight, list, b', e'), (goRight, list, begin, end))
          \<in> measure (\<lambda>(goRight, list, begin, end). nat (end - begin))"
    by simp
qed

declare searchLoop.simps [simp del]

text \<open>
  \<^verbatim>\<open>blockEntryLE(key)\<close>.  \<^verbatim>\<open>i.List[0]\<close> panics on an empty list.  The guard is
  \<^verbatim>\<open>i.List[0].Key > keystr\<close>, Go's plain string comparison; the loop compares with
  \<^verbatim>\<open>prefixCompareString\<close> and moves right on \<open>cmp \<le> 0\<close>.  The Go function returns
  \<^verbatim>\<open>(0, IndexEntry{}, ErrIndexEntryNotFound)\<close> on failure and \<^verbatim>\<open>(begin, list[begin], nil)\<close>
  otherwise.
\<close>

definition blockEntryLE :: "Index \<Rightarrow> bytes \<Rightarrow> (error + int \<times> IndexEntry) outcome" where
  "blockEntryLE i key =
     (let keystr = key; list = List i
      in if list = [] then Panic
         else if stringGreater (Key (list ! 0)) keystr then Ret (Inl ErrIndexEntryNotFound)
         else
           (case searchLoop (\<lambda>k. prefixCompareString k keystr \<le> 0) list 0 (int (length list) - 1) of
              Panic \<Rightarrow> Panic
            | Ret begin \<Rightarrow>
                if begin < 0 \<or> int (length list) \<le> begin then Panic
                else Ret (Inr (begin, list ! nat begin))))"

text \<open>
  \<^verbatim>\<open>blockEntryLT(key)\<close>.  The loop calls \<^verbatim>\<open>prefixCompare\<close>, a function that is not defined
  in the source; it is the parameter \<open>prefixCompare\<close>.  The loop moves right on
  \<open>cmp = -1\<close>; the final \<^verbatim>\<open>list[begin]\<close> panics on an empty list.
\<close>

definition blockEntryLT ::
  "(bytes \<Rightarrow> bytes \<Rightarrow> int) \<Rightarrow> Index \<Rightarrow> bytes \<Rightarrow> (int \<times> IndexEntry) outcome" where
  "blockEntryLT prefixCompare i key =
     (let list = List i
      in case searchLoop (\<lambda>k. prefixCompare k key = -1) list 0 (int (length list) - 1) of
           Panic \<Rightarrow> Panic
         | Ret begin \<Rightarrow>
             if begin < 0 \<or> int (length list) \<le> begin then Panic
             else Ret (begin, list ! nat begin))"

text \<open>\<^verbatim>\<open>blockEntryN(n)\<close>: the n-th entry and \<open>True\<close>, or the zero entry and \<open>False\<close>.\<close>

definition blockEntryN :: "Index \<Rightarrow> int \<Rightarrow> IndexEntry \<times> bool" where
  "blockEntryN i n =
     (if n < 0 \<or> int (length (List i)) \<le> n then (IndexEntry0, False)
      else (List i ! nat n, True))"

section \<open>Properties of the block locator\<close>

lemma searchLoop_returns:
  "0 \<le> begin \<Longrightarrow> begin \<le> end \<Longrightarrow> end < int (length list) \<Longrightarrow>
   \<exists>r. searchLoop g list begin end = Ret r \<and> begin \<le> r \<and> r \<le> end"
proof (induction g list "begin" "end" rule: searchLoop.induct)
  case (1 g list "begin" "end")
  show ?case
  proof (cases "0 < end - begin")
    case False
    then show ?thesis using "1.prems" by (simp add: searchLoop.simps)
  next
    case True
    have m: "begin < midpoint begin end \<and> midpoint begin end \<le> end"
      using True by (auto simp: midpoint_def Let_def)
    show ?thesis
    proof (cases "searchStep g list begin end")
      case StepPanic
      then show ?thesis using m "1.prems" by (auto simp: searchStep_def Let_def split: if_splits)
    next
      case StepBreak
      then show ?thesis using True "1.prems" by (simp add: searchLoop.simps)
    next
      case (StepContinue b' e')
      then have be: "begin \<le> b' \<and> b' \<le> e' \<and> e' \<le> end"
        using m by (auto simp: searchStep_def Let_def split: if_splits)
      from "1.IH" [OF True StepContinue] be "1.prems"
      obtain r where "searchLoop g list b' e' = Ret r" "b' \<le> r" "r \<le> e'" by auto
      then show ?thesis using True StepContinue be
        by (subst searchLoop.simps) auto
    qed
  qed
qed

lemma searchLoop_last:
  assumes anti: "\<forall>i j. i \<le> j \<and> j < length list \<and> g (Key (list ! j)) \<longrightarrow> g (Key (list ! i))"
  shows "0 \<le> begin \<Longrightarrow> begin \<le> end \<Longrightarrow> end < int (length list) \<Longrightarrow>
   g (Key (list ! nat begin)) \<Longrightarrow>
   (\<forall>j. nat end < j \<and> j < length list \<longrightarrow> \<not> g (Key (list ! j))) \<Longrightarrow>
   \<exists>r. searchLoop g list begin end = Ret r \<and> begin \<le> r \<and> r \<le> end \<and>
       g (Key (list ! nat r)) \<and> (\<forall>j. nat r < j \<and> j < length list \<longrightarrow> \<not> g (Key (list ! j)))"
  using anti
proof (induction g list "begin" "end" rule: searchLoop.induct)
  case (1 g list "begin" "end")
  note anti = "1.prems"(6)
  show ?case
  proof (cases "0 < end - begin")
    case False
    then have "begin = end" using "1.prems" by simp
    then show ?thesis using "1.prems" False by (simp add: searchLoop.simps)
  next
    case True
    let ?mid = "midpoint begin end"
    have m: "begin < ?mid \<and> ?mid \<le> end"
      using True by (auto simp: midpoint_def Let_def)
    have inr: "\<not> (?mid < 0 \<or> int (length list) \<le> ?mid)" using m "1.prems" by auto
    show ?thesis
    proof (cases "g (Key (list ! nat ?mid))")
      case gm: True
      then have st: "searchStep g list begin end = StepContinue ?mid end"
        using inr by (simp add: searchStep_def Let_def)
      from "1.IH" [OF True st] m "1.prems" gm
      obtain r where r: "searchLoop g list ?mid end = Ret r" "?mid \<le> r" "r \<le> end"
        "g (Key (list ! nat r))" "\<forall>j. nat r < j \<and> j < length list \<longrightarrow> \<not> g (Key (list ! j))"
        by auto
      show ?thesis using True st r m by (subst searchLoop.simps) auto
    next
      case ngm: False
      have above: "\<forall>j. nat ?mid \<le> j \<and> j < length list \<longrightarrow> \<not> g (Key (list ! j))"
        using anti ngm by blast
      show ?thesis
      proof (cases "end = ?mid")
        case e: True
        then have st: "searchStep g list begin end = StepBreak"
          using inr ngm by (simp add: searchStep_def Let_def)
        have "?mid = begin + 1" using e True by (auto simp: midpoint_def Let_def split: if_splits)
        then have "\<forall>j. nat begin < j \<and> j < length list \<longrightarrow> \<not> g (Key (list ! j))"
          using above "1.prems" by auto
        then show ?thesis using True st "1.prems" by (subst searchLoop.simps) auto
      next
        case ne: False
        then have st: "searchStep g list begin end = StepContinue begin ?mid"
          using inr ngm by (simp add: searchStep_def Let_def)
        have ab: "\<forall>j. nat ?mid < j \<and> j < length list \<longrightarrow> \<not> g (Key (list ! j))"
          using above by auto
        from "1.IH" [OF True st] m "1.prems" ab
        obtain r where r: "searchLoop g list begin ?mid = Ret r" "begin \<le> r" "r \<le> ?mid"
          "g (Key (list ! nat r))" "\<forall>j. nat r < j \<and> j < length list \<longrightarrow> \<not> g (Key (list ! j))"
          by auto
        show ?thesis using True st r m by (subst searchLoop.simps) auto
      qed
    qed
  qed
qed

text \<open>
  Entry lists sorted by key in Go's string order (the order both index builders enforce),
  and small concrete indexes used to instantiate the theorems below.
\<close>

definition keysSorted :: "IndexEntry list \<Rightarrow> bool" where
  "keysSorted list = sorted_wrt (\<lambda>a b. bytesCompare (Key a) (Key b) \<le> 0) list"

lemma keysSorted_nth:
  "keysSorted list \<Longrightarrow> i \<le> j \<Longrightarrow> j < length list \<Longrightarrow>
   bytesCompare (Key (list ! i)) (Key (list ! j)) \<le> 0"
  by (cases "i = j") (auto simp: keysSorted_def sorted_wrt_iff_nth_less)

definition exampleEntries :: "IndexEntry list" where
  "exampleEntries =
     [\<lparr>Key = ''b'', Offset = 0, Length = 8\<rparr>,
      \<lparr>Key = ''d'', Offset = 8, Length = 8\<rparr>,
      \<lparr>Key = ''f'', Offset = 16, Length = 4\<rparr>]"

definition mkIndex :: "bytes \<Rightarrow> IndexEntry list \<Rightarrow> Index" where
  "mkIndex delim list =
     \<lparr>Blocksize = 4096, Delimiter = delim, Epoch = 0, Filepath = [], Header = False,
      KeysIndexFirst = False, KeysUnique = False, ListLength = int (length list),
      List = list, Version = 2\<rparr>"

definition unsortedEntries :: "IndexEntry list" where
  "unsortedEntries =
     [\<lparr>Key = ''a'', Offset = 0, Length = 4\<rparr>,
      \<lparr>Key = ''c'', Offset = 4, Length = 4\<rparr>,
      \<lparr>Key = ''a'', Offset = 8, Length = 4\<rparr>]"

lemma searchLoop_unfold:
  "searchLoop g list b e =
     (if 0 < e - b then
        (case searchStep g list b e of
           StepPanic \<Rightarrow> Panic
         | StepBreak \<Rightarrow> Ret b
         | StepContinue b' e' \<Rightarrow> searchLoop g list b' e')
      else Ret b)"
  by (rule searchLoop.simps)

text \<open>
  Claim C9.  For every index with a non-empty entry list and every query key, the loops of
  \<^verbatim>\<open>blockEntryLE\<close> and \<^verbatim>\<open>blockEntryLT\<close> terminate and the functions return (they do not
  panic): with \<open>mid = begin + (end - begin)/2\<close>, advanced by one when \<open>mid = begin\<close>
  (\<open>midpoint\<close>), every pass through the loop body that continues leaves
  \<open>end - begin\<close> non-negative and strictly smaller, and the loop ends when
  \<open>end - begin\<close> is 0.  (Termination itself is the termination proof of \<open>searchLoop\<close>,
  whose measure is \<open>end - begin\<close>.)
\<close>

theorem blockEntry_loops_terminate:
  assumes "List i \<noteq> []"
  shows "(\<exists>r. blockEntryLE i key = Ret r) \<and>
         (\<exists>r. blockEntryLT prefixCompare i key = Ret r) \<and>
         (\<forall>g begin end b' e'.
             0 < end - begin \<and> searchStep g (List i) begin end = StepContinue b' e'
               \<longrightarrow> 0 \<le> e' - b' \<and> e' - b' < end - begin) \<and>
         (\<forall>g begin end. end - begin = 0 \<longrightarrow> searchLoop g (List i) begin end = Ret begin)"
proof -
  have len: "(0::int) \<le> int (length (List i)) - 1" "int (length (List i)) - 1 < int (length (List i))"
    using assms by (cases "List i"; simp)+
  have loop: "\<exists>r. searchLoop g (List i) 0 (int (length (List i)) - 1) = Ret r \<and> 0 \<le> r \<and>
                 r \<le> int (length (List i)) - 1" for g
    using searchLoop_returns [of 0 "int (length (List i)) - 1" "List i" g] len by simp
  have le: "\<exists>r. blockEntryLE i key = Ret r"
  proof -
    from loop [of "\<lambda>k. prefixCompareString k key \<le> 0"]
    obtain r where "searchLoop (\<lambda>k. prefixCompareString k key \<le> 0) (List i) 0 (int (length (List i)) - 1) = Ret r"
      "0 \<le> r" "r \<le> int (length (List i)) - 1" by blast
    then show ?thesis using assms by (simp add: blockEntryLE_def Let_def)
  qed
  have lt: "\<exists>r. blockEntryLT prefixCompare i key = Ret r"
  proof -
    from loop [of "\<lambda>k. prefixCompare k key = -1"]
    obtain r where "searchLoop (\<lambda>k. prefixCompare k key = -1) (List i) 0 (int (length (List i)) - 1) = Ret r"
      "0 \<le> r" "r \<le> int (length (List i)) - 1" by blast
    then show ?thesis by (simp add: blockEntryLT_def Let_def)
  qed
  have dec: "\<forall>g begin end b' e'.
             0 < end - begin \<and> searchStep g (List i) begin end = StepContinue b' e'
               \<longrightarrow> 0 \<le> e' - b' \<and> e' - b' < end - begin"
    using searchStep_decreases by blast
  have stop: "\<forall>g begin end. end - begin = 0 \<longrightarrow> searchLoop g (List i) begin end = Ret begin"
    by (simp add: searchLoop.simps)
  show ?thesis using le lt dec stop by blast
qed

theorem blockEntry_loops_terminate_witness:
  "List (mkIndex '','' exampleEntries) \<noteq> [] \<and>
   (\<exists>r. blockEntryLE (mkIndex '','' exampleEntries) ''c'' = Ret r) \<and>
   (\<exists>r. blockEntryLT PrefixCompare (mkIndex '','' exampleEntries) ''c'' = Ret r) \<and>
   (0::int) < 2 - 0 \<and>
   searchStep (\<lambda>k. prefixCompareString k ''c'' \<le> 0) (List (mkIndex '','' exampleEntries)) 0 2
     = StepContinue 0 1 \<and> (0::int) \<le> 1 - 0 \<and> (1::int) - 0 < 2 - 0 \<and>
   searchLoop (\<lambda>k. prefixCompareString k ''c'' \<le> 0) (List (mkIndex '','' exampleEntries)) 1 1 = Ret 1"
proof -
  have ne: "List (mkIndex '','' exampleEntries) \<noteq> []"
    by (simp add: mkIndex_def exampleEntries_def)
  have st: "searchStep (\<lambda>k. prefixCompareString k ''c'' \<le> 0) (List (mkIndex '','' exampleEntries)) 0 2
     = StepContinue 0 1"
    by (simp add: mkIndex_def exampleEntries_def searchStep_def midpoint_def prefixCompareString_def)
  from blockEntry_loops_terminate [OF ne, of "''c''" PrefixCompare] ne st
  show ?thesis by auto
qed

text \<open>
  Claim C4, as amended.  For every index with a non-empty entry list sorted by key,
  \<^verbatim>\<open>blockEntryLE(k)\<close> fails with \<open>ErrIndexEntryNotFound\<close> exactly when the first entry's
  key is strictly greater than \<open>k\<close> in Go's plain string order (the guard does not use the
  prefix comparator); otherwise it returns the position and value of the last entry whose
  key is less-than-or-equal-to \<open>k\<close> under the prefix comparator.
\<close>

theorem blockEntryLE_sorted:
  assumes ne: "List i \<noteq> []" and srt: "keysSorted (List i)"
  shows "(blockEntryLE i key = Ret (Inl ErrIndexEntryNotFound)
            \<longleftrightarrow> stringGreater (Key (List i ! 0)) key) \<and>
         (\<not> stringGreater (Key (List i ! 0)) key \<longrightarrow>
            (\<exists>p. blockEntryLE i key = Ret (Inr (int p, List i ! p)) \<and> p < length (List i) \<and>
                 prefixCompareString (Key (List i ! p)) key \<le> 0 \<and>
                 (\<forall>j. p < j \<and> j < length (List i) \<longrightarrow>
                        0 < prefixCompareString (Key (List i ! j)) key)))"
proof -
  let ?g = "\<lambda>k. prefixCompareString k key \<le> 0"
  let ?n = "int (length (List i))"
  have len: "(0::int) \<le> ?n - 1" "?n - 1 < ?n"
    using ne by (cases "List i"; simp)+
  have anti: "\<forall>a b. a \<le> b \<and> b < length (List i) \<and> ?g (Key (List i ! b)) \<longrightarrow> ?g (Key (List i ! a))"
  proof (intro allI impI)
    fix a b assume h: "a \<le> b \<and> b < length (List i) \<and> ?g (Key (List i ! b))"
    then have "bytesCompare (Key (List i ! a)) (Key (List i ! b)) \<le> 0"
      using keysSorted_nth [OF srt] by blast
    from prefixCompareString_mono [OF this, of key] h
    show "?g (Key (List i ! a))" by linarith
  qed
  have ok: "\<exists>p. blockEntryLE i key = Ret (Inr (int p, List i ! p)) \<and> p < length (List i) \<and>
                 prefixCompareString (Key (List i ! p)) key \<le> 0 \<and>
                 (\<forall>j. p < j \<and> j < length (List i) \<longrightarrow>
                        0 < prefixCompareString (Key (List i ! j)) key)"
    if ng: "\<not> stringGreater (Key (List i ! 0)) key"
  proof -
    have g0: "?g (Key (List i ! nat 0))" using plain_le_prefix_le [OF ng] by simp
    have top: "\<forall>j. nat (?n - 1) < j \<and> j < length (List i) \<longrightarrow> \<not> ?g (Key (List i ! j))"
      by auto
    from searchLoop_last [OF anti _ len(1) len(2) g0 top]
    obtain r where r: "searchLoop ?g (List i) 0 (?n - 1) = Ret r" "0 \<le> r" "r \<le> ?n - 1"
      "?g (Key (List i ! nat r))"
      "\<forall>j. nat r < j \<and> j < length (List i) \<longrightarrow> \<not> ?g (Key (List i ! j))"
      by auto
    have "blockEntryLE i key = Ret (Inr (r, List i ! nat r))"
      using r(1,2,3) ne ng by (simp add: blockEntryLE_def Let_def)
    then show ?thesis using r by (intro exI [of _ "nat r"]) auto
  qed
  have fail: "blockEntryLE i key = Ret (Inl ErrIndexEntryNotFound)
            \<longleftrightarrow> stringGreater (Key (List i ! 0)) key"
  proof (cases "stringGreater (Key (List i ! 0)) key")
    case True
    then show ?thesis using ne by (simp add: blockEntryLE_def Let_def)
  next
    case False
    from ok [OF False] show ?thesis using False by auto
  qed
  show ?thesis using fail ok by blast
qed

theorem blockEntryLE_sorted_witness:
  "List (mkIndex '','' exampleEntries) \<noteq> [] \<and> keysSorted (List (mkIndex '','' exampleEntries)) \<and>
   \<not> stringGreater (Key (List (mkIndex '','' exampleEntries) ! 0)) ''e'' \<and>
   blockEntryLE (mkIndex '','' exampleEntries) ''e'' \<noteq> Ret (Inl ErrIndexEntryNotFound) \<and>
   (\<exists>p. blockEntryLE (mkIndex '','' exampleEntries) ''e''
          = Ret (Inr (int p, List (mkIndex '','' exampleEntries) ! p)) \<and> p < 3)"
proof -
  have ne: "List (mkIndex '','' exampleEntries) \<noteq> []"
    by (simp add: mkIndex_def exampleEntries_def)
  have srt: "keysSorted (List (mkIndex '','' exampleEntries))"
    by (simp add: mkIndex_def exampleEntries_def keysSorted_def)
  have ng: "\<not> stringGreater (Key (List (mkIndex '','' exampleEntries) ! 0)) ''e''"
    by (simp add: mkIndex_def exampleEntries_def stringGreater_def)
  have l: "length (List (mkIndex '','' exampleEntries)) = 3"
    by (simp add: mkIndex_def exampleEntries_def)
  from blockEntryLE_sorted [OF ne srt, of "''e''"] ne srt ng l
  show ?thesis by auto
qed

text \<open>
  The claim as stated fails twice.  With the single entry key \<open>abc\<close> and the query \<open>ab\<close>
  the function fails although the first key is not greater than the query under the prefix
  comparator (it compares equal).  With the unsorted keys \<open>a, c, a\<close> and the query \<open>b\<close>
  the function returns position 0 although the entry at position 2 is also
  less-than-or-equal-to the query.
\<close>

theorem blockEntryLE_counterexample:
  "blockEntryLE (mkIndex '','' [\<lparr>Key = ''abc'', Offset = 0, Length = 10\<rparr>]) ''ab''
      = Ret (Inl ErrIndexEntryNotFound) \<and>
   \<not> 0 < prefixCompareString ''abc'' ''ab'' \<and>
   blockEntryLE (mkIndex '','' unsortedEntries) ''b''
      = Ret (Inr (0, \<lparr>Key = ''a'', Offset = 0, Length = 4\<rparr>)) \<and>
   prefixCompareString (Key (unsortedEntries ! 2)) ''b'' \<le> 0"
  by (simp add: blockEntryLE_def mkIndex_def unsortedEntries_def stringGreater_def
      prefixCompareString_def searchLoop_unfold searchStep_def midpoint_def)

section \<open>Slices, the reader and the searcher (bsearch.go)\<close>

text \<open>
  A Go slice is a window on a backing array: with \<open>arr\<close> the backing array from the
  slice's first element on, the capacity is \<open>length arr\<close> and the visible contents are the
  first \<open>len\<close> elements.  The two-index slice expression \<^verbatim>\<open>buf[i:j]\<close> on a slice is legal
  up to the capacity, not only up to the length, and panics beyond it.
\<close>

record slice =
  arr :: bytes
  len :: nat

definition cap :: "slice \<Rightarrow> nat" where
  "cap sl = length (arr sl)"

definition contents :: "slice \<Rightarrow> bytes" where
  "contents sl = take (len sl) (arr sl)"

text \<open>\<^verbatim>\<open>make([]byte, n)\<close>: \<open>n\<close> zero bytes, capacity \<open>n\<close>.\<close>

definition makeBytes :: "nat \<Rightarrow> slice" where
  "makeBytes n = \<lparr>arr = replicate n (CHR 0x00), len = n\<rparr>"

text \<open>\<^verbatim>\<open>getNBytesFrom(buf, offset, n)\<close> is \<^verbatim>\<open>buf[offset : offset+n]\<close>.\<close>

definition getNBytesFrom :: "slice \<Rightarrow> nat \<Rightarrow> nat \<Rightarrow> bytes outcome" where
  "getNBytesFrom buf offset n =
     (if offset + n \<le> cap buf then Ret (take n (drop offset (arr buf))) else Panic)"

text \<open>\<^verbatim>\<open>bytes.IndexByte(b, c)\<close>: the index of the first \<open>c\<close> in \<open>b\<close>, or \<open>-1\<close>.\<close>

fun IndexByte :: "bytes \<Rightarrow> byte \<Rightarrow> int" where
  "IndexByte [] c = -1"
| "IndexByte (x # xs) c =
     (if x = c then 0 else (let i = IndexByte xs c in if i = -1 then -1 else i + 1))"

text \<open>
  The searcher.  \<open>rdata\<close> is the content of the file behind the reader \<^verbatim>\<open>r\<close>; the fields
  \<^verbatim>\<open>l\<close>, \<^verbatim>\<open>reWord\<close> and \<^verbatim>\<open>logger\<close> do not influence any result modelled here (the word
  regular expression is the predicate \<open>isWord\<close> below).
\<close>

record Searcher =
  rdata :: bytes
  blocksize :: int
  buf :: slice
  bufOffset :: int
  dbuf :: slice
  dbufOffset :: int
  filepath :: string
  indexOpt :: int
  Index :: "Index option"
  compare :: "bytes \<Rightarrow> bytes \<Rightarrow> int"
  header :: bool
  boundary :: bool
  matchLE :: bool

text \<open>
  What the searcher calls but the source does not define or what lies outside the
  program: \<^verbatim>\<open>Index.BlockEntry\<close> (called by both block loops; no method of that name is
  defined), \<^verbatim>\<open>NewIndex\<close> applied to a path (it reads the file system), and
  \<^verbatim>\<open>zstd.Decompress(dst, src)\<close>.  They are parameters of the model.
\<close>

record externals =
  BlockEntry :: "Index \<Rightarrow> bytes \<Rightarrow> (int \<times> IndexEntry) outcome"
  NewIndex :: "string \<Rightarrow> error + Index"
  zstdDecompress :: "slice \<Rightarrow> bytes \<Rightarrow> error + slice"

text \<open>
  \<^verbatim>\<open>ReadAt(p, off)\<close> on a file with content \<open>data\<close>, for a destination of length \<open>plen\<close>:
  the bytes read and the error (\<open>EOF\<close> when fewer than \<open>plen\<close> bytes were available; an
  empty destination reads nothing and reports no error).
\<close>

definition ReadAt :: "bytes \<Rightarrow> nat \<Rightarrow> int \<Rightarrow> bytes \<times> error option" where
  "ReadAt data plen off =
     (if off < 0 then ([], Some (ErrOther ''negative offset''))
      else (let chunk = take plen (drop (nat off) data)
            in (chunk, if length chunk < plen then Some EOF else None)))"

definition readBlockEntry :: "Searcher \<Rightarrow> IndexEntry \<Rightarrow> (Searcher \<times> error option) outcome" where
  "readBlockEntry s entry =
     (if bufOffset s = Offset entry then Ret (s, None)
      else if Length entry < 0 then Panic
      else
        (let buf1 = (if Length entry > int (cap (buf s)) then makeBytes (nat (Length entry))
                     else (buf s)\<lparr>len := nat (Length entry)\<rparr>);
             (chunk, err) = ReadAt (rdata s) (len buf1) (Offset entry);
             bytesread = length chunk;
             buf2 = buf1\<lparr>arr := chunk @ drop bytesread (arr buf1)\<rparr>
         in if err \<noteq> None \<and> err \<noteq> Some EOF then Ret (s\<lparr>buf := buf2, bufOffset := -1\<rparr>, err)
            else if int bytesread < Length entry then
              Ret (s\<lparr>buf := buf2, bufOffset := -1\<rparr>, Some (ErrOther ''error reading block entry''))
            else Ret (s\<lparr>buf := buf2, bufOffset := Offset entry\<rparr>, None)))"

definition decompressBlockEntry ::
  "externals \<Rightarrow> Searcher \<Rightarrow> IndexEntry \<Rightarrow> (Searcher \<times> error option) outcome" where
  "decompressBlockEntry X s entry =
     (if dbufOffset s = Offset entry then Ret (s, None)
      else
        (case readBlockEntry s entry of
           Panic \<Rightarrow> Panic
         | Ret (s1, Some err) \<Rightarrow> Ret (s1, Some err)
         | Ret (s1, None) \<Rightarrow>
             (case zstdDecompress X (dbuf s1) (contents (buf s1)) of
                Inl err \<Rightarrow> Ret (s1\<lparr>dbuf := \<lparr>arr = [], len = 0\<rparr>, dbufOffset := -1\<rparr>, Some err)
              | Inr d \<Rightarrow> Ret (s1\<lparr>dbuf := d, dbufOffset := Offset entry\<rparr>, None))))"

text \<open>
  \<^verbatim>\<open>scanLineOffset(buf, k)\<close>.  The loop state is \<open>offset\<close> and \<open>trailing\<close>; the code after
  the loop is \<open>scanLineOffset_exit\<close>.
\<close>

definition scanLineOffset_exit :: "Searcher \<Rightarrow> int \<Rightarrow> bool \<Rightarrow> int \<times> bool" where
  "scanLineOffset_exit s trailing terminate =
     (if matchLE s \<and> trailing > -1 then (trailing, terminate) else (-1, terminate))"

function scanLineOffset_loop ::
  "Searcher \<Rightarrow> slice \<Rightarrow> bytes \<Rightarrow> nat \<Rightarrow> int \<Rightarrow> (int \<times> bool) outcome" where
  "scanLineOffset_loop s b k offset trailing =
     (if offset < len b then
        (case getNBytesFrom b offset (length k) of
           Panic \<Rightarrow> Panic
         | Ret offsetPrefix \<Rightarrow>
             (let cmp = compare s offsetPrefix k
              in if cmp = 0 then Ret (int offset, False)
                 else if cmp = 1 then Ret (scanLineOffset_exit s trailing True)
                 else
                   (let nlidx = IndexByte (drop offset (contents b)) nl
                    in if nlidx = -1 then Ret (scanLineOffset_exit s trailing False)
                       else scanLineOffset_loop s b k (offset + nat nlidx + 1) (int offset))))
      else Ret (scanLineOffset_exit s trailing False))"
  by pat_completeness auto
termination
  by (relation "measure (\<lambda>(s, b, k, offset, trailing). len b - offset)") auto

declare scanLineOffset_loop.simps [simp del]

definition scanLineOffset :: "Searcher \<Rightarrow> slice \<Rightarrow> bytes \<Rightarrow> (int \<times> bool) outcome" where
  "scanLineOffset s b k = scanLineOffset_loop s b k 0 (-1)"

text \<open>
  \<^verbatim>\<open>scanLinesMatching(buf, b, n)\<close>.  The loop state is \<open>offset\<close> and \<open>lines\<close>; \<open>terminate\<close>
  is the flag returned by \<open>scanLineOffset\<close>.
\<close>

function scanLinesMatching_loop ::
  "Searcher \<Rightarrow> slice \<Rightarrow> bytes \<Rightarrow> int \<Rightarrow> bool \<Rightarrow> nat \<Rightarrow> bytes list \<Rightarrow> (bytes list \<times> bool) outcome" where
  "scanLinesMatching_loop s bf b n terminate offset lines =
     (if offset < len bf then
        (if n > 0 \<and> int (length lines) \<ge> n then Ret (take (nat n) lines, True)
         else
           (case getNBytesFrom bf offset (length b) of
              Panic \<Rightarrow> Panic
            | Ret offsetPrefix \<Rightarrow>
                (let cmp = compare s offsetPrefix b;
                     nlidx = IndexByte (drop offset (contents bf)) nl
                 in if cmp < 0 then
                      (if nlidx = -1 then Ret (lines, terminate)
                       else scanLinesMatching_loop s bf b n terminate (offset + nat nlidx + 1) lines)
                    else if cmp = 0 then
                      (if nlidx = -1 then Ret (lines @ [drop offset (contents bf)], terminate)
                       else scanLinesMatching_loop s bf b n terminate (offset + nat nlidx + 1)
                              (lines @ [take (nat nlidx) (drop offset (contents bf))]))
                    else Ret (lines, True))))
      else Ret (lines, terminate))"
  by pat_completeness auto
termination
  by (relation "measure (\<lambda>(s, bf, b, n, terminate, offset, lines). len bf - offset)") auto

declare scanLinesMatching_loop.simps [simp del]

definition scanLinesMatching ::
  "Searcher \<Rightarrow> slice \<Rightarrow> bytes \<Rightarrow> int \<Rightarrow> (bytes list \<times> bool) outcome" where
  "scanLinesMatching s bf b n =
     (case scanLineOffset s bf b of
        Panic \<Rightarrow> Panic
      | Ret (offset, terminate) \<Rightarrow>
          if offset = -1 \<or> terminate then Ret ([], terminate)
          else scanLinesMatching_loop s bf b n terminate (nat offset) [])"

text \<open>
  The regular expression \<^verbatim>\<open>\.zst$\<close> matches a path exactly when the path ends in
  \<^verbatim>\<open>.zst\<close>.
\<close>

definition reCompressedMatch :: "string \<Rightarrow> bool" where
  "reCompressedMatch p = (4 \<le> length p \<and> drop (length p - 4) p = ''.zst'')"

text \<open>
  \<^verbatim>\<open>isCompressed\<close>.  The last test reads \<^verbatim>\<open>s.Index.Filename\<close>, a field the index
  structure of index.go does not have; the index's path is its \<open>Filepath\<close>.
\<close>

definition isCompressed :: "Searcher \<Rightarrow> bool" where
  "isCompressed s =
     (if filepath s = [] \<and> Index s = None then False
      else if filepath s \<noteq> [] then (if reCompressedMatch (filepath s) then True else False)
      else (case Index s of
              None \<Rightarrow> False
            | Some i \<Rightarrow> if reCompressedMatch (Filepath i) then True else False))"

text \<open>
  \<^verbatim>\<open>scanIndexedLines(k, n)\<close>.  The block loop is \<open>scanIndexedLines_loop\<close>; the code
  after the loop is \<open>scanIndexedLines_finish\<close>.  The call \<^verbatim>\<open>s.Index.BlockEntryN(e)\<close> is
  the method the index defines as \<^verbatim>\<open>blockEntryN\<close>.  The search sequence is the key followed
  by the index's delimiter.
\<close>

definition scanIndexedLines_finish ::
  "Searcher \<Rightarrow> bytes list \<Rightarrow> (Searcher \<times> bytes list \<times> error option) outcome" where
  "scanIndexedLines_finish s lines =
     (if length lines = 0 then Ret (s, lines, Some ErrNotFound) else Ret (s, lines, None))"

function scanIndexedLines_loop ::
  "Index \<Rightarrow> bytes \<Rightarrow> int \<Rightarrow> Searcher \<Rightarrow> int \<Rightarrow> IndexEntry \<Rightarrow> bytes list
     \<Rightarrow> (Searcher \<times> bytes list \<times> error option) outcome" where
  "scanIndexedLines_loop idx k n s e entry lines =
     (case readBlockEntry s entry of
        Panic \<Rightarrow> Panic
      | Ret (s1, Some err) \<Rightarrow> Ret (s1, [], Some err)
      | Ret (s1, None) \<Rightarrow>
          (let b = k @ Delimiter idx
           in case scanLinesMatching s1 (buf s1) b n of
                Panic \<Rightarrow> Panic
              | Ret (l, terminate) \<Rightarrow>
                  (let lines1 = (if length l > 0 then lines @ l else lines)
                   in if terminate then scanIndexedLines_finish s1 lines1
                      else
                        (let e1 = e + 1;
                             (entry1, ok) = blockEntryN idx e1
                         in if \<not> ok then scanIndexedLines_finish s1 lines1
                            else scanIndexedLines_loop idx k n s1 e1 entry1 lines1))))"
  by pat_completeness auto
termination
  by (relation "measure (\<lambda>(idx, k, n, s, e, entry, lines). nat (int (length (List idx)) - e))")
     (auto simp: blockEntryN_def split: if_splits)

declare scanIndexedLines_loop.simps [simp del]

definition scanIndexedLines ::
  "externals \<Rightarrow> Searcher \<Rightarrow> bytes \<Rightarrow> int \<Rightarrow> (Searcher \<times> bytes list \<times> error option) outcome" where
  "scanIndexedLines X s k n =
     (case Index s of
        None \<Rightarrow> Panic
      | Some idx \<Rightarrow>
          (case BlockEntry X idx k of
             Panic \<Rightarrow> Panic
           | Ret (e, entry) \<Rightarrow> scanIndexedLines_loop idx k n s e entry []))"

text \<open>
  \<^verbatim>\<open>scanCompressedLines(k, n)\<close>.  The loop asks for \<^verbatim>\<open>BlockEntryN(e + 1)\<close> and never
  changes \<open>e\<close>, so it need not terminate: not returning is the value \<open>None\<close>.
\<close>

partial_function (option) scanCompressedLines_loop ::
  "externals \<Rightarrow> Index \<Rightarrow> bytes \<Rightarrow> int \<Rightarrow> int \<Rightarrow> Searcher \<Rightarrow> IndexEntry \<Rightarrow> bytes list
     \<Rightarrow> (Searcher \<times> bytes list \<times> error option) outcome option" where
  "scanCompressedLines_loop X idx k n e s entry lines =
     (case decompressBlockEntry X s entry of
        Panic \<Rightarrow> Some Panic
      | Ret (s1, Some err) \<Rightarrow> Some (Ret (s1, [], Some err))
      | Ret (s1, None) \<Rightarrow>
          (let b = k @ Delimiter idx
           in case scanLinesMatching s1 (dbuf s1) b n of
                Panic \<Rightarrow> Some Panic
              | Ret (l, terminate) \<Rightarrow>
                  (let lines1 = (if length l > 0 then lines @ l else lines)
                   in if terminate then Some (Ret (s1, lines1, None))
                      else
                        (let (entry1, ok) = blockEntryN idx (e + 1)
                         in if \<not> ok then Some (Ret (s1, lines1, None))
                            else scanCompressedLines_loop X idx k n e s1 entry1 lines1))))"

definition scanCompressedLines ::
  "externals \<Rightarrow> Searcher \<Rightarrow> bytes \<Rightarrow> int
     \<Rightarrow> (Searcher \<times> bytes list \<times> error option) outcome option" where
  "scanCompressedLines X s k n =
     (case Index s of
        None \<Rightarrow> Some Panic
      | Some idx \<Rightarrow>
          (case BlockEntry X idx k of
             Panic \<Rightarrow> Some Panic
           | Ret (e, entry) \<Rightarrow> scanCompressedLines_loop X idx k n e s entry []))"

definition LinesN ::
  "externals \<Rightarrow> Searcher \<Rightarrow> bytes \<Rightarrow> int
     \<Rightarrow> (Searcher \<times> bytes list \<times> error option) outcome option" where
  "LinesN X s k n =
     (if isCompressed s then
        (if Index s = None then Some (Ret (s, [], Some ErrCompressedNoIndex))
         else scanCompressedLines X s k n)
      else if Index s = None then
        (case NewIndex X (filepath s) of
           Inl err \<Rightarrow> Some (Ret (s, [], Some err))
         | Inr index \<Rightarrow> Some (scanIndexedLines X (s\<lparr>Index := Some index\<rparr>) k n))
      else Some (scanIndexedLines X s k n))"

definition Line ::
  "externals \<Rightarrow> Searcher \<Rightarrow> bytes \<Rightarrow> (Searcher \<times> bytes \<times> error option) outcome option" where
  "Line X s k =
     (case LinesN X s k 1 of
        None \<Rightarrow> None
      | Some Panic \<Rightarrow> Some Panic
      | Some (Ret (s1, lines, err)) \<Rightarrow>
          if err \<noteq> None \<or> length lines < 1 then Some (Ret (s1, [], err))
          else Some (Ret (s1, lines ! 0, None)))"

definition Lines ::
  "externals \<Rightarrow> Searcher \<Rightarrow> bytes \<Rightarrow> (Searcher \<times> bytes list \<times> error option) outcome option" where
  "Lines X s b = LinesN X s b 0"

text \<open>The regular expression \<^verbatim>\<open>\w\<close> on one byte: \<^verbatim>\<open>[0-9A-Za-z_]\<close>.\<close>

definition isWord :: "byte \<Rightarrow> bool" where
  "isWord c = ((CHR ''0'' \<le> c \<and> c \<le> CHR ''9'') \<or> (CHR ''A'' \<le> c \<and> c \<le> CHR ''Z'') \<or>
               (CHR ''a'' \<le> c \<and> c \<le> CHR ''z'') \<or> c = CHR ''_'')"

text \<open>
  \<^verbatim>\<open>checkPrefixMatch(bufa, b)\<close>: the only place where the \<open>boundary\<close> flag is read.  No
  function of the source calls it.
\<close>

definition checkPrefixMatch ::
  "Searcher \<Rightarrow> bytes \<Rightarrow> bytes \<Rightarrow> (bytes \<times> bool \<times> error option) outcome" where
  "checkPrefixMatch s bufa b =
     (let cmp = PrefixCompare bufa b
      in if cmp < 0 then Ret ([], False, Some (ErrOther ''Error: badly sorted file?''))
         else if cmp > 0 then Ret ([], True, None)
         else if boundary s \<and> length bufa > length b then
           (if length b = 0 then Panic
            else
              (let blast = bufa ! (length b - 1);
                   bnext = bufa ! (length b)
               in if (isWord blast \<and> isWord bnext) \<or> (\<not> isWord blast \<and> \<not> isWord bnext)
                  then Ret ([], False, None)
                  else Ret (bufa, False, None)))
         else Ret (bufa, False, None))"

text \<open>
  The searcher \<^verbatim>\<open>NewSearcher(filename)\<close> returns when the file exists, is not a directory
  and has the content \<open>data\<close>, and \<^verbatim>\<open>NewIndexLoad\<close> yields \<open>index\<close>; and \<^verbatim>\<open>setOptions\<close>.
\<close>

definition defaultBlocksize :: int where
  "defaultBlocksize = 4096"

definition NewSearcher :: "string \<Rightarrow> bytes \<Rightarrow> Index option \<Rightarrow> Searcher" where
  "NewSearcher filename data index =
     \<lparr>rdata = data, blocksize = defaultBlocksize,
      buf = makeBytes (nat (defaultBlocksize + 1)), bufOffset = -1,
      dbuf = \<lparr>arr = [], len = 0\<rparr>, dbufOffset = -1,
      filepath = filename, indexOpt = 0, Index = index,
      compare = PrefixCompare, header = False, boundary = False, matchLE = False\<rparr>"

record Options =
  oBlocksize :: int
  oCompare :: "(bytes \<Rightarrow> bytes \<Rightarrow> int) option"
  oHeader :: bool
  oBoundary :: bool
  oMatchLE :: bool
  oIndex :: int

definition setOptions :: "Searcher \<Rightarrow> Options \<Rightarrow> Searcher" where
  "setOptions s options =
     (let s1 = (if oBlocksize options > 0 then s\<lparr>blocksize := oBlocksize options\<rparr> else s);
          s2 = (case oCompare options of None \<Rightarrow> s1 | Some c \<Rightarrow> s1\<lparr>compare := c\<rparr>);
          s3 = (if oHeader options then s2\<lparr>header := True\<rparr> else s2);
          s4 = (if oBoundary options then s3\<lparr>boundary := True\<rparr> else s3);
          s5 = (if oMatchLE options then s4\<lparr>matchLE := True\<rparr> else s4);
          s6 = (if oIndex options > 0 \<and> oIndex options \<le> 3 then s5\<lparr>indexOpt := oIndex options\<rparr> else s5)
      in s6)"

section \<open>Properties of the line scanner\<close>

text \<open>Concrete option values and buffers used to instantiate the theorems below.\<close>

definition boundaryOptions :: Options where
  "boundaryOptions =
     \<lparr>oBlocksize = 0, oCompare = None, oHeader = False, oBoundary = True, oMatchLE = False,
      oIndex = 0\<rparr>"

definition sliceOf :: "bytes \<Rightarrow> slice" where
  "sliceOf bs = \<lparr>arr = bs, len = length bs\<rparr>"

text \<open>
  Claim C10.  \<open>PrefixCompare a b = 0\<close> for every \<open>a\<close> when \<open>b\<close> is empty; consequently, with
  the default comparator, \<^verbatim>\<open>scanLineOffset(buf, empty key)\<close> on a non-empty buffer returns
  offset 0 with \<open>terminate = false\<close>: an empty search key matches every line.
\<close>

theorem empty_key_matches_every_line:
  "(\<forall>a. PrefixCompare a [] = 0) \<and>
   (0 < len bf \<and> compare s = PrefixCompare \<longrightarrow> scanLineOffset s bf [] = Ret (0, False))"
  by (simp add: PrefixCompare_def scanLineOffset_def scanLineOffset_loop.simps getNBytesFrom_def)

theorem empty_key_matches_every_line_witness:
  "PrefixCompare ''abc'' [] = 0 \<and>
   0 < len (sliceOf (''a,1'' @ [nl])) \<and> compare (NewSearcher ''x.csv'' [] None) = PrefixCompare \<and>
   scanLineOffset (NewSearcher ''x.csv'' [] None) (sliceOf (''a,1'' @ [nl])) [] = Ret (0, False)"
proof -
  have h: "0 < len (sliceOf (''a,1'' @ [nl])) \<and> compare (NewSearcher ''x.csv'' [] None) = PrefixCompare"
    by (simp add: sliceOf_def NewSearcher_def)
  from empty_key_matches_every_line [of "sliceOf (''a,1'' @ [nl])" "NewSearcher ''x.csv'' [] None"] h
  show ?thesis by blast
qed

text \<open>
  Claim C5.  The claim says that with the boundary option enabled a line that matches the
  search sequence is left out of the scan's result unless exactly one of the bytes at
  positions \<open>len(b) - 1\<close> and \<open>len(b)\<close> is a word character.  The scan does not do that:
  \<^verbatim>\<open>scanLinesMatching\<close> never reads the \<open>boundary\<close> flag, and \<^verbatim>\<open>checkPrefixMatch\<close>, which
  implements the rule, is never called.  With \<^verbatim>\<open>Options{Boundary: true}\<close>, the buffer
  \<open>abc\<close> + newline and the search sequence \<open>ab\<close>, the scan returns the line \<open>abc\<close> although
  \<open>b\<close> and \<open>c\<close> are both word characters; \<^verbatim>\<open>checkPrefixMatch\<close> on the same line rejects it
  (empty result, no break, no error).
\<close>

theorem scan_ignores_boundary:
  "boundary (setOptions (NewSearcher ''x.csv'' (''abc'' @ [nl]) None) boundaryOptions) \<and>
   scanLinesMatching (setOptions (NewSearcher ''x.csv'' (''abc'' @ [nl]) None) boundaryOptions)
       (sliceOf (''abc'' @ [nl])) ''ab'' 0 = Ret ([''abc''], False) \<and>
   isWord (CHR ''b'') \<and> isWord (CHR ''c'') \<and>
   checkPrefixMatch (setOptions (NewSearcher ''x.csv'' (''abc'' @ [nl]) None) boundaryOptions)
       ''abc'' ''ab'' = Ret ([], False, None)"
  by (simp add: setOptions_def NewSearcher_def boundaryOptions_def sliceOf_def
      scanLinesMatching_def scanLineOffset_def scanLineOffset_loop.simps
      scanLinesMatching_loop.simps getNBytesFrom_def cap_def contents_def PrefixCompare_def
      nl_def scanLineOffset_exit_def isWord_def checkPrefixMatch_def)

section \<open>Loading an index (index.go)\<close>

text \<open>
  \<^verbatim>\<open>LoadIndex\<close> talks to the file system and to two libraries.  Their answers are the
  fields of \<open>fileSystem\<close>: \<^verbatim>\<open>filepath.Abs\<close>, \<^verbatim>\<open>filepath.Split\<close>, \<^verbatim>\<open>filepath.Join\<close>,
  \<^verbatim>\<open>os.Stat\<close> (only its error is used), \<^verbatim>\<open>os.Open\<close> (its error), reading the whole
  zstd stream of the opened file with \<^verbatim>\<open>ioutil.ReadAll\<close>, \<^verbatim>\<open>yaml.Unmarshal\<close> into a given
  index value (its error is discarded by the code), and the modification time in seconds
  that \<^verbatim>\<open>epoch\<close> reads with \<^verbatim>\<open>os.Stat\<close>.
\<close>

datatype statResult = StatOk | StatNotExist | StatError error

record fileSystem =
  pathAbs :: "string \<Rightarrow> error + string"
  pathSplit :: "string \<Rightarrow> string \<times> string"
  pathJoin :: "string \<Rightarrow> string \<Rightarrow> string"
  osStat :: "string \<Rightarrow> statResult"
  osOpen :: "string \<Rightarrow> error option"
  readAllZstd :: "string \<Rightarrow> error + bytes"
  yamlUnmarshal :: "bytes \<Rightarrow> Index \<Rightarrow> Index"
  modTime :: "string \<Rightarrow> error + int"

definition indexSuffix :: string where
  "indexSuffix = ''bsx''"

text \<open>\<^verbatim>\<open>indexFile\<close>: every \<open>.\<close> becomes \<open>_\<close>, then \<open>.bsx\<close> is appended.\<close>

definition indexFile :: "string \<Rightarrow> string" where
  "indexFile filename =
     (let basename = map (\<lambda>c. if c = CHR ''.'' then CHR ''_'' else c) filename
      in basename @ ''.'' @ indexSuffix)"

definition IndexPath :: "fileSystem \<Rightarrow> string \<Rightarrow> error + string" where
  "IndexPath fs path =
     (case pathAbs fs path of
        Inl err \<Rightarrow> Inl err
      | Inr path1 \<Rightarrow>
          (let (dir, base) = pathSplit fs path1
           in Inr (pathJoin fs dir (indexFile base))))"

definition epoch :: "fileSystem \<Rightarrow> string \<Rightarrow> error + int" where
  "epoch fs path = modTime fs path"

text \<open>The value \<^verbatim>\<open>Index{List: []IndexEntry{}}\<close> that \<^verbatim>\<open>LoadIndex\<close> unmarshals into.\<close>

definition Index0 :: Index where
  "Index0 =
     \<lparr>Blocksize = 0, Delimiter = [], Epoch = 0, Filepath = [], Header = False,
      KeysIndexFirst = False, KeysUnique = False, ListLength = 0, List = [], Version = 0\<rparr>"

definition LoadIndex :: "fileSystem \<Rightarrow> string \<Rightarrow> error + Index" where
  "LoadIndex fs path =
     (case pathAbs fs path of
        Inl err \<Rightarrow> Inl err
      | Inr path1 \<Rightarrow>
          (case IndexPath fs path1 of
             Inl err \<Rightarrow> Inl err
           | Inr idxpath \<Rightarrow>
               (case osStat fs idxpath of
                  StatNotExist \<Rightarrow> Inl ErrIndexNotFound
                | StatError err \<Rightarrow> Inl err
                | StatOk \<Rightarrow>
                    (case osOpen fs idxpath of
                       Some err \<Rightarrow> Inl err
                     | None \<Rightarrow>
                         (case readAllZstd fs idxpath of
                            Inl err \<Rightarrow> Inl err
                          | Inr data \<Rightarrow>
                              (let index = yamlUnmarshal fs data Index0
                               in if Filepath index \<noteq> path1 then Inl ErrIndexPathMismatch
                                  else
                                    (case epoch fs path1 of
                                       Inl err \<Rightarrow> Inl err
                                     | Inr fe \<Rightarrow>
                                         if fe > Epoch index then Inl ErrIndexExpired
                                         else if Version index = 0
                                           then Inr (index\<lparr>Version := 1\<rparr>)
                                           else Inr index)))))))"

text \<open>
  A file system for the examples: the dataset \<open>/d/a.csv\<close> with modification time \<open>mt\<close>, and
  beside it (when \<open>present\<close>) an index file whose content unmarshals to \<open>stored\<close>.
\<close>

definition exampleFS :: "bool \<Rightarrow> Index \<Rightarrow> int \<Rightarrow> fileSystem" where
  "exampleFS present stored mt =
     \<lparr>pathAbs = (\<lambda>p. Inr p),
      pathSplit = (\<lambda>p. (''/d/'', drop 3 p)),
      pathJoin = (\<lambda>d f. d @ f),
      osStat = (\<lambda>p. if present \<and> p = ''/d/a_csv.bsx'' then StatOk else StatNotExist),
      osOpen = (\<lambda>p. None),
      readAllZstd = (\<lambda>p. Inr ''yaml''),
      yamlUnmarshal = (\<lambda>d i. stored),
      modTime = (\<lambda>p. Inr mt)\<rparr>"

definition storedIndex :: "string \<Rightarrow> int \<Rightarrow> int \<Rightarrow> Index" where
  "storedIndex fp ep v =
     \<lparr>Blocksize = 4096, Delimiter = '','', Epoch = ep, Filepath = fp, Header = False,
      KeysIndexFirst = False, KeysUnique = False, ListLength = 1,
      List = [\<lparr>Key = ''a'', Offset = 0, Length = 4\<rparr>], Version = v\<rparr>"

text \<open>
  Claim C7.  With the dataset path resolved to the absolute path \<open>p\<close> and the sibling
  index path derived as \<open>ip\<close>: \<^verbatim>\<open>LoadIndex\<close> fails with \<open>ErrIndexNotFound\<close> when the
  index file does not exist; once the file has been read, it fails with
  \<open>ErrIndexPathMismatch\<close> when the deserialized index's \<open>Filepath\<close> differs from \<open>p\<close>
  (whatever the modification time: the path check comes before the freshness check); it
  fails with \<open>ErrIndexExpired\<close> when the paths agree and the dataset's modification time is
  strictly greater than the stored \<open>Epoch\<close>; and otherwise it succeeds with the
  deserialized index, in which a \<open>Version\<close> left at 0 (field absent) has become 1.
\<close>

theorem LoadIndex_checks:
  assumes "pathAbs fs path = Inr p" and "IndexPath fs p = Inr ip"
  shows "(osStat fs ip = StatNotExist \<longrightarrow> LoadIndex fs path = Inl ErrIndexNotFound) \<and>
         (osStat fs ip = StatOk \<and> osOpen fs ip = None \<and> readAllZstd fs ip = Inr data \<longrightarrow>
            (Filepath (yamlUnmarshal fs data Index0) \<noteq> p \<longrightarrow>
               LoadIndex fs path = Inl ErrIndexPathMismatch) \<and>
            (Filepath (yamlUnmarshal fs data Index0) = p \<and> epoch fs p = Inr fe \<and>
             fe > Epoch (yamlUnmarshal fs data Index0) \<longrightarrow>
               LoadIndex fs path = Inl ErrIndexExpired) \<and>
            (Filepath (yamlUnmarshal fs data Index0) = p \<and> epoch fs p = Inr fe \<and>
             fe \<le> Epoch (yamlUnmarshal fs data Index0) \<longrightarrow>
               LoadIndex fs path =
                 Inr ((yamlUnmarshal fs data Index0)
                        \<lparr>Version := (if Version (yamlUnmarshal fs data Index0) = 0 then 1
                                     else Version (yamlUnmarshal fs data Index0))\<rparr>)))"
  using assms by (auto simp: LoadIndex_def Let_def)

lemma exampleFS_paths:
  "pathAbs (exampleFS pr st mt) ''/d/a.csv'' = Inr ''/d/a.csv'' \<and>
   IndexPath (exampleFS pr st mt) ''/d/a.csv'' = Inr ''/d/a_csv.bsx''"
  by (simp add: exampleFS_def IndexPath_def indexFile_def indexSuffix_def)

theorem LoadIndex_checks_witness:
  "LoadIndex (exampleFS False (storedIndex ''/d/a.csv'' 100 0) 50) ''/d/a.csv''
      = Inl ErrIndexNotFound \<and>
   LoadIndex (exampleFS True (storedIndex ''/e/a.csv'' 100 0) 200) ''/d/a.csv''
      = Inl ErrIndexPathMismatch \<and>
   LoadIndex (exampleFS True (storedIndex ''/d/a.csv'' 100 0) 101) ''/d/a.csv''
      = Inl ErrIndexExpired \<and>
   LoadIndex (exampleFS True (storedIndex ''/d/a.csv'' 100 0) 100) ''/d/a.csv''
      = Inr (storedIndex ''/d/a.csv'' 100 1)"
proof -
  note p = exampleFS_paths
  have 1: "LoadIndex (exampleFS False (storedIndex ''/d/a.csv'' 100 0) 50) ''/d/a.csv''
      = Inl ErrIndexNotFound"
    using LoadIndex_checks [OF p [THEN conjunct1] p [THEN conjunct2],
        of False "storedIndex ''/d/a.csv'' 100 0" 50]
    by (simp add: exampleFS_def)
  have 2: "LoadIndex (exampleFS True (storedIndex ''/e/a.csv'' 100 0) 200) ''/d/a.csv''
      = Inl ErrIndexPathMismatch"
    using LoadIndex_checks [OF p [THEN conjunct1] p [THEN conjunct2],
        of True "storedIndex ''/e/a.csv'' 100 0" 200 "''yaml''"]
    by (simp add: exampleFS_def storedIndex_def)
  have 3: "LoadIndex (exampleFS True (storedIndex ''/d/a.csv'' 100 0) 101) ''/d/a.csv''
      = Inl ErrIndexExpired"
    using LoadIndex_checks [OF p [THEN conjunct1] p [THEN conjunct2],
        of True "storedIndex ''/d/a.csv'' 100 0" 101 "''yaml''" 101]
    by (simp add: exampleFS_def storedIndex_def epoch_def)
  have 4: "LoadIndex (exampleFS True (storedIndex ''/d/a.csv'' 100 0) 100) ''/d/a.csv''
      = Inr (storedIndex ''/d/a.csv'' 100 1)"
    using LoadIndex_checks [OF p [THEN conjunct1] p [THEN conjunct2],
        of True "storedIndex ''/d/a.csv'' 100 0" 100 "''yaml''" 100]
    by (simp add: exampleFS_def storedIndex_def epoch_def)
  show ?thesis using 1 2 3 4 by blast
qed

section \<open>The line-scan index builder (index.go)\<close>

text \<open>
  The width of the first UTF-8 sequence of a non-empty byte string, as \<^verbatim>\<open>utf8.DecodeRune\<close>
  reports it (an invalid or truncated sequence has width 1).  It is what
  \<^verbatim>\<open>bytes.SplitN\<close> cuts off when the separator is empty.
\<close>

definition inRange :: "byte \<Rightarrow> nat \<Rightarrow> nat \<Rightarrow> bool" where
  "inRange c lo hi = (lo \<le> of_char c \<and> (of_char c :: nat) \<le> hi)"

definition utf8Width :: "bytes \<Rightarrow> nat" where
  "utf8Width p =
     (case p of
        [] \<Rightarrow> 0
      | b0 # rest \<Rightarrow>
          (let size = (if inRange b0 0xC2 0xDF then 2 else if inRange b0 0xE0 0xEF then 3
                       else if inRange b0 0xF0 0xF4 then 4 else 1 :: nat);
               lo = (if b0 = CHR 0xE0 then 0xA0 else if b0 = CHR 0xF0 then 0x90 else 0x80 :: nat);
               hi = (if b0 = CHR 0xED then 0x9F else if b0 = CHR 0xF4 then 0x8F else 0xBF :: nat)
           in if size = 1 \<or> length p < size then 1
              else if \<not> inRange (p ! 1) lo hi then 1
              else if size = 2 then 2
              else if \<not> inRange (p ! 2) 0x80 0xBF then 1
              else if size = 3 then 3
              else if \<not> inRange (p ! 3) 0x80 0xBF then 1
              else 4))"

text \<open>\<^verbatim>\<open>bytes.Index(s, sep)\<close> for a non-empty \<open>sep\<close>: first position where \<open>sep\<close> occurs.\<close>

fun bytesIndex :: "bytes \<Rightarrow> bytes \<Rightarrow> nat option" where
  "bytesIndex [] sep = (if sep = [] then Some 0 else None)"
| "bytesIndex (x # xs) sep =
     (if take (length sep) (x # xs) = sep then Some 0
      else map_option Suc (bytesIndex xs sep))"

text \<open>
  \<^verbatim>\<open>bytes.SplitN(line, sep, 2)[0]\<close>.  With a non-empty separator it is the line up to the
  first occurrence of the separator (the whole line when there is none).  With an empty
  separator the line is cut after its first UTF-8 sequence, and an empty line gives an
  empty result slice, so that indexing it panics.
\<close>

definition splitKey :: "bytes \<Rightarrow> bytes \<Rightarrow> bytes outcome" where
  "splitKey line sep =
     (if sep = [] then (if line = [] then Panic else Ret (take (utf8Width line) line))
      else (case bytesIndex line sep of None \<Rightarrow> Ret line | Some i \<Rightarrow> Ret (take i line)))"

text \<open>
  The body of the \<^verbatim>\<open>for scanner.Scan()\<close> loop of \<^verbatim>\<open>generateLineIndex\<close>, over the lines
  the scanner yields.  The loop state is the index (its \<open>Header\<close> and \<open>KeysUnique\<close>
  fields change), \<open>list\<close>, \<open>blockPosition\<close>, \<open>blockNumber\<close>, \<open>prevKey\<close> and
  \<open>skipHeader\<close>.  Go's integer division panics on a zero divisor and truncates towards
  zero (\<open>blockPosition\<close> is never negative).
\<close>

definition updateLastLength :: "IndexEntry list \<Rightarrow> int \<Rightarrow> IndexEntry list" where
  "updateLastLength list blockPosition =
     (if length list > 0 then
        (let last = list ! (length list - 1)
         in list[length list - 1 := (list ! (length list - 1))\<lparr>Length := blockPosition - Offset last\<rparr>])
      else list)"

text \<open>
  The \<^verbatim>\<open>switch bytes.Compare(prevKey, key)\<close>: the new index, list and block number, or
  the sort-violation error.
\<close>

definition checkKeyOrder ::
  "Index \<Rightarrow> IndexEntry list \<Rightarrow> int \<Rightarrow> bytes \<Rightarrow> bytes \<Rightarrow> error + Index \<times> IndexEntry list \<times> int" where
  "checkKeyOrder index list blockNumber prevKey key =
     (let c = bytesCompare prevKey key
      in if c = 1 then
           (if blockNumber = 0 \<and> \<not> Header index then Inr (index\<lparr>Header := True\<rparr>, [], -1)
            else Inl (ErrSortViolation prevKey key))
         else if c = 0 then Inr (index\<lparr>KeysUnique := False\<rparr>, list, blockNumber)
         else Inr (index, list, blockNumber))"

text \<open>``Add the first line of each block to our index'': the new list and block number.\<close>

definition addFirstLine ::
  "Index \<Rightarrow> IndexEntry list \<Rightarrow> int \<Rightarrow> int \<Rightarrow> bytes \<Rightarrow> (IndexEntry list \<times> int) outcome" where
  "addFirstLine index list blockPosition blockNumber key =
     (if Blocksize index = 0 then Panic
      else
        (let currentBlockNumber = blockPosition div Blocksize index
         in if currentBlockNumber > blockNumber then
              Ret (updateLastLength list blockPosition @
                     [\<lparr>Key = key, Offset = blockPosition, Length = 0\<rparr>], currentBlockNumber)
            else Ret (list, blockNumber)))"

fun generateLineIndex_loop ::
  "bytes list \<Rightarrow> Index \<Rightarrow> IndexEntry list \<Rightarrow> int \<Rightarrow> int \<Rightarrow> bytes \<Rightarrow> bool
     \<Rightarrow> (error + Index \<times> IndexEntry list \<times> int) outcome" where
  "generateLineIndex_loop [] index list blockPosition blockNumber prevKey skipHeader =
     Ret (Inr (index, list, blockPosition))"
| "generateLineIndex_loop (line # rest) index list blockPosition blockNumber prevKey skipHeader =
     (if skipHeader then
        generateLineIndex_loop rest index list (blockPosition + int (length line + 1))
          blockNumber prevKey False
      else
        (case splitKey line (Delimiter index) of
           Panic \<Rightarrow> Panic
         | Ret key \<Rightarrow>
             (case checkKeyOrder index list blockNumber prevKey key of
                Inl err \<Rightarrow> Ret (Inl err)
              | Inr (index1, list1, blockNumber1) \<Rightarrow>
                  (case addFirstLine index1 list1 blockPosition blockNumber1 key of
                     Panic \<Rightarrow> Panic
                   | Ret (list2, blockNumber2) \<Rightarrow>
                       generateLineIndex_loop rest index1 list2
                         (blockPosition + int (length line + 1)) blockNumber2 key False))))"

text \<open>
  \<^verbatim>\<open>generateLineIndex(index, reader)\<close>.  The reader is seen through the
  \<^verbatim>\<open>bufio.Scanner\<close>: \<open>lines\<close> are the tokens it yields and \<open>scanErr\<close> is what
  \<^verbatim>\<open>scanner.Err()\<close> reports afterwards.  \<^verbatim>\<open>make([]byte, index.Blocksize)\<close> panics on a
  negative size.  On success the updated index is returned.
\<close>

definition generateLineIndex :: "Index \<Rightarrow> bytes list \<Rightarrow> error option \<Rightarrow> (error + Index) outcome" where
  "generateLineIndex index lines scanErr =
     (if Blocksize index < 0 then Panic
      else
        (case generateLineIndex_loop lines (index\<lparr>KeysUnique := True\<rparr>) [] 0 (-1) []
                (Header index) of
           Panic \<Rightarrow> Panic
         | Ret (Inl err) \<Rightarrow> Ret (Inl err)
         | Ret (Inr (index1, list, blockPosition)) \<Rightarrow>
             (case scanErr of
                Some err \<Rightarrow> Ret (Inl err)
              | None \<Rightarrow>
                  if length list = 0 then Ret (Inl ErrIndexEmpty)
                  else
                    (let list1 = updateLastLength list blockPosition;
                         index2 = (if KeysUnique index1 then index1\<lparr>KeysIndexFirst := True\<rparr>
                                   else index1)
                     in Ret (Inr (index2\<lparr>List := list1, ListLength := int (length list1)\<rparr>))))))"

definition lineScanIndex :: Index where
  "lineScanIndex =
     \<lparr>Blocksize = 4096, Delimiter = '','', Epoch = 0, Filepath = ''/d/a.csv'', Header = False,
      KeysIndexFirst = False, KeysUnique = False, ListLength = 0, List = [], Version = 2\<rparr>"


text \<open>
  Claim C8.  The claim says that an out-of-order key is forgiven (header set, state reset)
  only on the second record, and that on every later record it is a sort violation; the
  comment in the code says the same (``allow second record out-of-order due to header'').
  The guard in the code is \<^verbatim>\<open>blockNumber == 0 && !index.Header\<close>, which holds for every
  record seen while only the first block (block number 0) has an entry.
  With block size 4096 and the records \<open>b,1\<close>, \<open>c,1\<close>, \<open>a,1\<close> the violation on the
  third record is forgiven: the build succeeds with \<open>Header = True\<close> and the single entry
  \<open>(a, 8, 4)\<close>.  (A violation on the second record is forgiven as the claim says; with block
  size 4 the same third record is in a later block and the build fails as the claim says.)
\<close>

theorem header_guard_accepts_third_record:
  "generateLineIndex lineScanIndex [''b,1'', ''c,1'', ''a,1''] None =
     Ret (Inr (lineScanIndex\<lparr>Header := True, KeysUnique := True, KeysIndexFirst := True,
                 List := [\<lparr>Key = ''a'', Offset = 8, Length = 4\<rparr>], ListLength := 1\<rparr>)) \<and>
   generateLineIndex lineScanIndex [''k,v'', ''a,1'', ''d,1''] None =
     Ret (Inr (lineScanIndex\<lparr>Header := True, KeysUnique := True, KeysIndexFirst := True,
                 List := [\<lparr>Key = ''a'', Offset = 4, Length = 8\<rparr>], ListLength := 1\<rparr>)) \<and>
   generateLineIndex (lineScanIndex\<lparr>Blocksize := 4\<rparr>) [''b,1'', ''c,1'', ''a,1''] None =
     Ret (Inl (ErrSortViolation ''c'' ''a''))"
  by (simp add: generateLineIndex_def lineScanIndex_def splitKey_def updateLastLength_def
      checkKeyOrder_def addFirstLine_def)

end
